theory Spec2Isabelle
  imports Complex_Main "HOL-Library.Multiset"
begin

section \<open>The continual-learning agent of agents/default.py\<close>

text \<open>
  A shallow embedding of the class \<open>NormalNN\<close> and of the helpers
  \<open>accumulate_acc\<close>, \<open>accumulate_mcc\<close> and \<open>accumulate_corr\<close>.

  Conventions of the embedding.
  \<^item> Numbers held by tensors, losses and meters are exact (\<open>real\<close>); rounding of
    floating-point arithmetic is not part of the model.
  \<^item> A two-dimensional tensor is the list of its rows; a tensor of targets is a list.
  \<^item> Every \<open>raise\<close> of the Python is a value \<open>Inl e\<close>. A method that
    mutates the agent returns its result together with the agent as the call left it, also
    when the call raised.
  \<^item> The network, the optimizer, the loss functions and the metric functions belong to
    libraries; they are parameters collected in the record \<open>env\<close>.
  \<^item> Timers, device placement of tensors and the text written by \<open>self.log\<close> are
    left out. The calls made on the collaborators are recorded in the field \<open>trace\<close>.
\<close>

subsection \<open>Errors and data\<close>

datatype error =
    AssertionError string
  | AttributeError
  | IndexError
  | KeyError
  | NameError
  | ValueError
  | ZeroDivisionError

type_synonym tensor = "real list list"

text \<open>
  What \<open>forward\<close> returns: a plain dictionary from task name to the output of that
  head, or a \<open>SequenceClassifierOutput\<close> of the transformers library. The latter is an
  ordered dictionary of its fields that are set (\<open>loss\<close>, \<open>logits\<close>, ...) which
  also answers to integer positions and slices through its tuple of values.
\<close>

datatype net_output =
    DictOutput "(string \<times> tensor) list"
  | SequenceClassifierOutput "(string \<times> tensor) list"

fun items :: "net_output \<Rightarrow> (string \<times> tensor) list" where
  "items (DictOutput kvs) = kvs"
| "items (SequenceClassifierOutput kvs) = kvs"

text \<open>\<open>preds[1]\<close>: the second value of a \<open>SequenceClassifierOutput\<close>; on a
  dictionary whose keys are task names the integer \<open>1\<close> is no key.\<close>

fun getitem_1 :: "net_output \<Rightarrow> error + tensor" where
  "getitem_1 (DictOutput kvs) = Inl KeyError"
| "getitem_1 (SequenceClassifierOutput kvs) =
     (if 2 \<le> length kvs then Inr (snd (kvs ! 1)) else Inl IndexError)"

text \<open>The network input of one batch: a tensor, a list of tensors as the data loader of a
  sequence model yields it, or the dictionary of named fields built from such a list.\<close>

datatype net_input =
    TensorInput tensor
  | ListInput "tensor list"
  | DictInput (input_ids: tensor) (attention_mask: tensor) (token_type_ids: tensor)
      (labels: "real list")

datatype loss_fn = CrossEntropyLoss | MSELoss

text \<open>\<open>valid_out_dim\<close> is the string \<open>'ALL'\<close> (here \<open>ALL_OUT\<close>) or an integer.\<close>

datatype out_dim = ALL_OUT | Dim int

text \<open>A loss is the Python number that \<open>loss = 0\<close> starts from, or a tensor of one
  element once a value of the loss function has been added to it.\<close>

datatype loss = PyNumber real | LossTensor real

fun loss_value :: "loss \<Rightarrow> real" where
  "loss_value (PyNumber x) = x"
| "loss_value (LossTensor x) = x"

datatype event =
    EvInitOptimizer
  | EvEpoch nat
  | EvModelTrain
  | EvSchedulerStep nat
  | EvUpdateModel
  | EvValidation string

subsection \<open>The metric accumulator\<close>

text \<open>
  Modelled from the spec: \<open>AverageMeter\<close> is imported from \<open>utils.metric\<close>, which
  is not among the sources. The contract of the specification: \<open>update(value, weight)\<close>
  adds \<open>value * weight\<close> to an internal sum and \<open>weight\<close> to an internal count;
  \<open>avg\<close> returns the sum divided by the count and fails when the count is zero. A new
  meter holds sum and count zero.
\<close>

record meter =
  meter_sum :: real
  meter_count :: real

definition AverageMeter :: meter where
  "AverageMeter = \<lparr>meter_sum = 0, meter_count = 0\<rparr>"

definition update :: "meter \<Rightarrow> real \<Rightarrow> real \<Rightarrow> meter" where
  "update m val n = m\<lparr>meter_sum := meter_sum m + val * n, meter_count := meter_count m + n\<rparr>"

definition avg :: "meter \<Rightarrow> error + real" where
  "avg m = (if meter_count m = 0 then Inl ZeroDivisionError
            else Inr (meter_sum m / meter_count m))"

text \<open>A sequence of \<open>update\<close> calls, one per (value, weight) pair, in the order of the list.\<close>

fun updates :: "meter \<Rightarrow> (real \<times> real) list \<Rightarrow> meter" where
  "updates m [] = m"
| "updates m ((v, w) # rest) = updates (update m v w) rest"

subsection \<open>Configuration, collaborators and the agent\<close>

record config =
  schedule :: "int list"
  print_freq :: int
  out_dim :: "(string \<times> nat) list"
  gpuid :: "int list"

text \<open>
  The collaborators. \<open>'m\<close> is the state of the network (parameters and gradients),
  \<open>'o\<close> the state of optimizer and scheduler.
\<close>

record ('m, 'o) env =
  forward_fn :: "'m \<Rightarrow> bool \<Rightarrow> net_input \<Rightarrow> net_output"
  loss_of :: "loss_fn \<Rightarrow> tensor \<Rightarrow> real list \<Rightarrow> real"
  zero_grad :: "'m \<Rightarrow> 'm"
  backward :: "'m \<Rightarrow> net_input \<Rightarrow> real list \<Rightarrow> string list \<Rightarrow> 'm"
  optimizer_step :: "'o \<Rightarrow> 'm \<Rightarrow> 'o \<times> 'm"
  new_optimizer :: "config \<Rightarrow> 'm \<Rightarrow> 'o"
  scheduler_step :: "'o \<Rightarrow> nat \<Rightarrow> 'o"
  accuracy :: "tensor \<Rightarrow> real list \<Rightarrow> real"
  matthews :: "tensor \<Rightarrow> real list \<Rightarrow> real"
  pearson_and_spearman :: "tensor \<Rightarrow> real list \<Rightarrow> real"

record ('m, 'o) agent =
  config :: config
  args_output_mode :: string
  multihead :: bool
  gpu :: bool
  reset_optimizer :: bool
  training :: bool
  model_training :: bool
  model :: 'm
  optimizer :: 'o
  criterion_fn :: "loss_fn option"
  valid_out_dim :: out_dim
  trace :: "event list"

text \<open>
  \<open>glue_output_modes\<close> of the transformers library, imported as \<open>output_modes\<close>.
\<close>

definition output_modes :: "string \<rightharpoonup> string" where
  "output_modes = map_of
     [(''cola'', ''classification''), (''mnli'', ''classification''),
      (''mnli-mm'', ''classification''), (''mrpc'', ''classification''),
      (''sst-2'', ''classification''), (''sts-b'', ''regression''),
      (''qqp'', ''classification''), (''qnli'', ''classification''),
      (''rte'', ''classification''), (''wnli'', ''classification'')]"

subsection \<open>Selecting the samples of a task\<close>

text \<open>\<open>[i for i in range(len(tasks)) if tasks[i] == t]\<close>\<close>

definition match_inds :: "string list \<Rightarrow> string \<Rightarrow> nat list" where
  "match_inds tasks t = filter (\<lambda>i. tasks ! i = t) [0..<length tasks]"

text \<open>\<open>xs[inds]\<close> with a list of positions: an index past the end raises.\<close>

definition index_select :: "'a list \<Rightarrow> nat list \<Rightarrow> error + 'a list" where
  "index_select xs inds =
     (if list_all (\<lambda>i. i < length xs) inds then Inr (map (\<lambda>i. xs ! i) inds)
      else Inl IndexError)"

text \<open>\<open>pred[:, :k]\<close>: a negative \<open>k\<close> counts from the end of the row.\<close>

definition slice_cols :: "int \<Rightarrow> tensor \<Rightarrow> tensor" where
  "slice_cols k pred =
     map (\<lambda>row. take (if 0 \<le> k then nat k else length row - nat (- k)) row) pred"

subsection \<open>criterion\<close>

text \<open>\<open>self.criterion_fn(p, t)\<close>: the attribute exists only after \<open>learn_batch\<close> or
  \<open>validation\<close> has set it.\<close>

definition call_criterion_fn ::
  "('m, 'o) env \<Rightarrow> ('m, 'o) agent \<Rightarrow> tensor \<Rightarrow> real list \<Rightarrow> error + real" where
  "call_criterion_fn E a p t =
     (case criterion_fn a of None \<Rightarrow> Inl AttributeError
      | Some L \<Rightarrow> Inr (loss_of E L p t))"

text \<open>The loop over \<open>preds.items()\<close> of the multi-head branch.\<close>

fun criterion_tasks ::
  "('m, 'o) env \<Rightarrow> ('m, 'o) agent \<Rightarrow> (string \<times> tensor) list \<Rightarrow> real list \<Rightarrow> string list
     \<Rightarrow> loss \<Rightarrow> error + loss" where
  "criterion_tasks E a [] targets tasks l = Inr l"
| "criterion_tasks E a ((t, t_preds) # rest) targets tasks l =
     (let inds = match_inds tasks t in
      if 0 < length inds then
        (case index_select t_preds inds of
           Inl e \<Rightarrow> Inl e
         | Inr p \<Rightarrow>
            (case index_select targets inds of
               Inl e \<Rightarrow> Inl e
             | Inr t_target \<Rightarrow>
                (case call_criterion_fn E a p t_target of
                   Inl e \<Rightarrow> Inl e
                 | Inr v \<Rightarrow>
                     criterion_tasks E a rest targets tasks
                       (LossTensor (loss_value l + v * real (length inds))))))
      else criterion_tasks E a rest targets tasks l)"

text \<open>\<open>loss /= len(targets)\<close>: dividing the Python number by zero raises; a tensor is
  divided elementwise (it exists only when some sample matched, so the batch is not empty:
  \<open>criterion_tasks_tensor\<close> below).\<close>

fun div_loss :: "loss \<Rightarrow> nat \<Rightarrow> error + loss" where
  "div_loss (PyNumber x) n = (if n = 0 then Inl ZeroDivisionError else Inr (PyNumber (x / real n)))"
| "div_loss (LossTensor x) n = Inr (LossTensor (x / real n))"

text \<open>In \<open>self.criterion_fn(preds[1], targets)\<close> the attribute is looked up before
  the argument \<open>preds[1]\<close> is evaluated.\<close>

definition criterion ::
  "('m, 'o) env \<Rightarrow> ('m, 'o) agent \<Rightarrow> net_output \<Rightarrow> real list \<Rightarrow> string list \<Rightarrow> error + loss" where
  "criterion E a preds targets tasks =
     (if multihead a then
        (case criterion_tasks E a (items preds) targets tasks (PyNumber 0) of
           Inl e \<Rightarrow> Inl e
         | Inr l \<Rightarrow> div_loss l (length targets))
      else
        (case map_of (items preds) ''All'' of
           Some p \<Rightarrow>
             (let pred = (case valid_out_dim a of ALL_OUT \<Rightarrow> p | Dim k \<Rightarrow> slice_cols k p) in
              case call_criterion_fn E a pred targets of
                Inl e \<Rightarrow> Inl e
              | Inr v \<Rightarrow> Inr (LossTensor v))
         | None \<Rightarrow>
             (case criterion_fn a of
                None \<Rightarrow> Inl AttributeError
              | Some L \<Rightarrow>
                 (case getitem_1 preds of
                    Inl e \<Rightarrow> Inl e
                  | Inr p \<Rightarrow> Inr (LossTensor (loss_of E L p targets))))))"

subsection \<open>The metric helpers\<close>

text \<open>
  \<open>accumulate_acc\<close>, \<open>accumulate_mcc\<close> and \<open>accumulate_corr\<close> are the same
  function up to the metric they call; \<open>accumulate\<close> takes the metric as an argument.
  The helpers receive the meter as an object of which they use nothing but the method
  \<open>update\<close>: the meter is the pair of that method, \<open>upd\<close>, and the state \<open>m\<close>
  it acts on, so that every call \<open>meter.update(v, n)\<close> is a step \<open>upd m v n\<close>.
  \<open>accumulate_tasks\<close> is the loop over \<open>output.items()\<close> of the multi-head branch.
\<close>

fun accumulate_tasks ::
  "('mt \<Rightarrow> real \<Rightarrow> real \<Rightarrow> 'mt) \<Rightarrow> (tensor \<Rightarrow> real list \<Rightarrow> real) \<Rightarrow> (string \<times> tensor) list
     \<Rightarrow> real list \<Rightarrow> string list \<Rightarrow> 'mt \<Rightarrow> error + 'mt" where
  "accumulate_tasks upd f [] target task m = Inr m"
| "accumulate_tasks upd f ((t, t_out) # rest) target task m =
     (let inds = match_inds task t in
      if 0 < length inds then
        (case index_select t_out inds of
           Inl e \<Rightarrow> Inl e
         | Inr t_out' \<Rightarrow>
            (case index_select target inds of
               Inl e \<Rightarrow> Inl e
             | Inr t_target \<Rightarrow>
                 accumulate_tasks upd f rest target task
                   (upd m (f t_out' t_target) (real (length inds)))))
      else accumulate_tasks upd f rest target task m)"

definition accumulate ::
  "('mt \<Rightarrow> real \<Rightarrow> real \<Rightarrow> 'mt) \<Rightarrow> (tensor \<Rightarrow> real list \<Rightarrow> real) \<Rightarrow> net_output
     \<Rightarrow> real list \<Rightarrow> string list \<Rightarrow> 'mt \<Rightarrow> error + 'mt" where
  "accumulate upd f out target task m =
     (case out of
        SequenceClassifierOutput kvs \<Rightarrow>
          (if 2 \<le> length kvs
           then Inr (upd m (f (snd (kvs ! 1)) target) (real (length target)))
           else Inl ValueError)
      | DictOutput kvs \<Rightarrow>
          (case map_of kvs ''All'' of
             Some p \<Rightarrow> Inr (upd m (f p target) (real (length target)))
           | None \<Rightarrow> accumulate_tasks upd f kvs target task m))"

definition accumulate_acc ::
  "('m, 'o) env \<Rightarrow> ('mt \<Rightarrow> real \<Rightarrow> real \<Rightarrow> 'mt) \<Rightarrow> net_output \<Rightarrow> real list \<Rightarrow> string list
     \<Rightarrow> 'mt \<Rightarrow> error + 'mt" where
  "accumulate_acc E upd = accumulate upd (accuracy E)"

definition accumulate_mcc ::
  "('m, 'o) env \<Rightarrow> ('mt \<Rightarrow> real \<Rightarrow> real \<Rightarrow> 'mt) \<Rightarrow> net_output \<Rightarrow> real list \<Rightarrow> string list
     \<Rightarrow> 'mt \<Rightarrow> error + 'mt" where
  "accumulate_mcc E upd = accumulate upd (matthews E)"

definition accumulate_corr ::
  "('m, 'o) env \<Rightarrow> ('mt \<Rightarrow> real \<Rightarrow> real \<Rightarrow> 'mt) \<Rightarrow> net_output \<Rightarrow> real list \<Rightarrow> string list
     \<Rightarrow> 'mt \<Rightarrow> error + 'mt" where
  "accumulate_corr E upd = accumulate upd (pearson_and_spearman E)"

text \<open>The chain \<open>if name == 'cola' ... elif output_mode == 'classification' ... elif
  output_mode == 'regression'\<close> that picks the meter and the helper. The meters that
  \<open>validation\<close> and \<open>learn_batch\<close> create are \<open>AverageMeter\<close> objects, whose
  method is \<open>update\<close>.\<close>

datatype metric = Mcc | Acc | Corr

definition select_metric :: "string \<Rightarrow> string \<Rightarrow> metric option" where
  "select_metric name mode =
     (if name = ''cola'' then Some Mcc
      else if mode = ''classification'' then Some Acc
      else if mode = ''regression'' then Some Corr
      else None)"

fun accumulate_metric ::
  "('m, 'o) env \<Rightarrow> metric \<Rightarrow> net_output \<Rightarrow> real list \<Rightarrow> string list \<Rightarrow> meter
     \<Rightarrow> error + meter" where
  "accumulate_metric E Mcc = accumulate_mcc E update"
| "accumulate_metric E Acc = accumulate_acc E update"
| "accumulate_metric E Corr = accumulate_corr E update"

subsection \<open>Construction and mode\<close>

definition init_optimizer :: "('m, 'o) env \<Rightarrow> ('m, 'o) agent \<Rightarrow> ('m, 'o) agent" where
  "init_optimizer E a =
     a\<lparr>optimizer := new_optimizer E (config a) (model a), trace := trace a @ [EvInitOptimizer]\<rparr>"

text \<open>\<open>__init__\<close>, given the network that \<open>create_model\<close> built and the mode that
  network is in. A new \<open>nn.Module\<close> is in training mode.\<close>

definition NormalNN ::
  "('m, 'o) env \<Rightarrow> string \<Rightarrow> config \<Rightarrow> 'm \<Rightarrow> bool \<Rightarrow> error + ('m, 'o) agent" where
  "NormalNN E args_mode agent_config net net_mode =
     (case gpuid agent_config of
        [] \<Rightarrow> Inl IndexError
      | g # _ \<Rightarrow>
          Inr (init_optimizer E
            \<lparr>config = agent_config, args_output_mode = args_mode,
             multihead = (1 < length (out_dim agent_config)), gpu = (0 \<le> g),
             reset_optimizer = False, training = True, model_training = net_mode,
             model = net, optimizer = new_optimizer E agent_config net,
             criterion_fn = None, valid_out_dim = ALL_OUT, trace = []\<rparr>))"

text \<open>\<open>self.train(mode)\<close> and \<open>self.eval()\<close> of \<open>nn.Module\<close> set the flag of the
  agent and of every module below it; \<open>self.model\<close> is one.\<close>

definition train :: "('m, 'o) agent \<Rightarrow> bool \<Rightarrow> ('m, 'o) agent" where
  "train a mode = a\<lparr>training := mode, model_training := mode\<rparr>"

definition eval_mode :: "('m, 'o) agent \<Rightarrow> ('m, 'o) agent" where
  "eval_mode a = train a False"

subsection \<open>predict and validation\<close>

type_synonym batch = "net_input \<times> real list \<times> string list"

definition predict :: "('m, 'o) env \<Rightarrow> ('m, 'o) agent \<Rightarrow> net_input \<Rightarrow> net_output \<times> ('m, 'o) agent" where
  "predict E a inputs =
     (let a' = a\<lparr>model_training := False\<rparr>
      in (forward_fn E (model a') (model_training a') inputs, a'))"

text \<open>The block under \<open>if self.gpu\<close>: a list of at least three tensors is repackaged with
  the targets as labels, a tensor is moved, anything else has no \<open>cuda\<close>.\<close>

definition to_device :: "bool \<Rightarrow> net_input \<Rightarrow> real list \<Rightarrow> error + net_input" where
  "to_device g inp target =
     (if g then
        (case inp of
           ListInput ts \<Rightarrow>
             (if 3 \<le> length ts then Inr (DictInput (ts ! 0) (ts ! 1) (ts ! 2) target)
              else Inl IndexError)
         | TensorInput t \<Rightarrow> Inr inp
         | DictInput i m s l \<Rightarrow> Inl AttributeError)
      else Inr inp)"

fun validation_batches ::
  "('m, 'o) env \<Rightarrow> metric option \<Rightarrow> ('m, 'o) agent \<Rightarrow> batch list \<Rightarrow> meter
     \<Rightarrow> (error + meter) \<times> ('m, 'o) agent" where
  "validation_batches E k a [] m = (Inr m, a)"
| "validation_batches E k a ((inp, target, task) # rest) m =
     (case to_device (gpu a) inp target of
        Inl e \<Rightarrow> (Inl e, a)
      | Inr inp' \<Rightarrow>
         (case predict E a inp' of
            (out, a') \<Rightarrow>
              (case k of
                 None \<Rightarrow> validation_batches E k a' rest m
               | Some k' \<Rightarrow>
                  (case accumulate_metric E k' out target task m of
                     Inl e \<Rightarrow> (Inl e, a')
                   | Inr m' \<Rightarrow> validation_batches E k a' rest m'))))"

text \<open>The assignments to \<open>self.criterion_fn\<close> at the head of \<open>validation\<close>, in
  the branch that creates the meter.\<close>

fun assign_criterion_fn :: "metric option \<Rightarrow> ('m, 'o) agent \<Rightarrow> ('m, 'o) agent" where
  "assign_criterion_fn None a = a"
| "assign_criterion_fn (Some Mcc) a = a\<lparr>criterion_fn := Some CrossEntropyLoss\<rparr>"
| "assign_criterion_fn (Some Acc) a = a\<lparr>criterion_fn := Some CrossEntropyLoss\<rparr>"
| "assign_criterion_fn (Some Corr) a = a\<lparr>criterion_fn := Some MSELoss\<rparr>"

text \<open>
  \<open>validation\<close>. The meter is created, and \<open>criterion_fn\<close> assigned, by the name of
  the task and its entry in \<open>output_modes\<close>; the meter that the log line and the
  \<open>return\<close> read is chosen by \<open>self.args.output_mode\<close>, and reading a local that
  was never assigned raises.
\<close>

definition validation ::
  "('m, 'o) env \<Rightarrow> ('m, 'o) agent \<Rightarrow> string \<Rightarrow> batch list
     \<Rightarrow> (error + real option) \<times> ('m, 'o) agent" where
  "validation E a val_name dataloader =
     (let a0 = a\<lparr>trace := trace a @ [EvValidation val_name]\<rparr> in
      case output_modes val_name of
        None \<Rightarrow> (Inl KeyError, a0)
      | Some output_mode \<Rightarrow>
         (let created = select_metric val_name output_mode;
              a1 = assign_criterion_fn created a0;
              orig_mode = training a1
          in case validation_batches E created (eval_mode a1) dataloader AverageMeter of
               (Inl e, a3) \<Rightarrow> (Inl e, a3)
             | (Inr m, a3) \<Rightarrow>
                (let a4 = train a3 orig_mode in
                 case select_metric val_name (args_output_mode a4) of
                   None \<Rightarrow> (Inr None, a4)
                 | Some k \<Rightarrow>
                     (if created = Some k then
                        (case avg m of
                           Inl e \<Rightarrow> (Inl e, a4)
                         | Inr v \<Rightarrow> (Inr (Some v), a4))
                      else (Inl NameError, a4)))))"

subsection \<open>update_model and learn_batch\<close>

text \<open>\<open>loss.backward()\<close> exists on a tensor only: the Python number left by a
  multi-head batch in which no task matched has no such method.\<close>

definition update_model ::
  "('m, 'o) env \<Rightarrow> ('m, 'o) agent \<Rightarrow> net_input \<Rightarrow> real list \<Rightarrow> string list
     \<Rightarrow> (error + loss \<times> net_output) \<times> ('m, 'o) agent" where
  "update_model E a inputs targets tasks =
     (let a0 = a\<lparr>trace := trace a @ [EvUpdateModel]\<rparr>;
          out = forward_fn E (model a0) (model_training a0) inputs
      in case criterion E a0 out targets tasks of
           Inl e \<Rightarrow> (Inl e, a0)
         | Inr l \<Rightarrow>
            (let a1 = a0\<lparr>model := zero_grad E (model a0)\<rparr> in
             case l of
               PyNumber x \<Rightarrow> (Inl AttributeError, a1)
             | LossTensor x \<Rightarrow>
                 (case optimizer_step E (optimizer a1)
                         (backward E (model a1) inputs targets tasks) of
                    (opt', net') \<Rightarrow> (Inr (l, out), a1\<lparr>model := net', optimizer := opt'\<rparr>))))"

text \<open>\<open>sample.size(0)\<close> of the dictionary input, \<open>input.size(0)\<close> of a tensor; a list
  has no \<open>detach\<close>.\<close>

fun batch_size :: "net_input \<Rightarrow> error + nat" where
  "batch_size (DictInput i m s l) = Inr (length i)"
| "batch_size (TensorInput t) = Inr (length t)"
| "batch_size (ListInput ts) = Inl AttributeError"

text \<open>The progress line is formatted when \<open>(print_freq > 0 and i % print_freq == 0) or
  i + 1 == len(train_loader)\<close>; formatting reads \<open>avg\<close> of the loss meter and of the
  metric meter.\<close>

definition progress_due :: "int \<Rightarrow> nat \<Rightarrow> nat \<Rightarrow> bool" where
  "progress_due pf i n = ((0 < pf \<and> int i mod pf = 0) \<or> i + 1 = n)"

fun train_batches ::
  "('m, 'o) env \<Rightarrow> metric option \<Rightarrow> nat \<Rightarrow> ('m, 'o) agent \<Rightarrow> nat \<Rightarrow> batch list \<Rightarrow> meter \<Rightarrow> meter
     \<Rightarrow> (error + meter \<times> meter) \<times> ('m, 'o) agent" where
  "train_batches E k n a i [] losses m = (Inr (losses, m), a)"
| "train_batches E k n a i ((inp, target, task) # rest) losses m =
     (case to_device (gpu a) inp target of
        Inl e \<Rightarrow> (Inl e, a)
      | Inr inp' \<Rightarrow>
         (case update_model E a inp' target task of
            (Inl e, a') \<Rightarrow> (Inl e, a')
          | (Inr (l, out), a') \<Rightarrow>
             (case batch_size inp' of
                Inl e \<Rightarrow> (Inl e, a')
              | Inr b \<Rightarrow>
                 (let losses' = update losses (loss_value l) (real b) in
                  case k of
                    None \<Rightarrow> train_batches E k n a' (Suc i) rest losses' m
                  | Some k' \<Rightarrow>
                     (case accumulate_metric E k' out target task m of
                        Inl e \<Rightarrow> (Inl e, a')
                      | Inr m' \<Rightarrow>
                         (if progress_due (print_freq (config a')) i n then
                            (case avg losses' of
                               Inl e \<Rightarrow> (Inl e, a')
                             | Inr x \<Rightarrow>
                                (case avg m' of
                                   Inl e \<Rightarrow> (Inl e, a')
                                 | Inr y \<Rightarrow> train_batches E k n a' (Suc i) rest losses' m'))
                          else train_batches E k n a' (Suc i) rest losses' m'))))))"

text \<open>The body of the loop \<open>for epoch in range(...)\<close>, and the loop over the list of
  epoch indices.\<close>

definition train_epoch ::
  "('m, 'o) env \<Rightarrow> string \<Rightarrow> metric option \<Rightarrow> ('m, 'o) agent \<Rightarrow> nat \<Rightarrow> batch list
     \<Rightarrow> batch list option \<Rightarrow> (error + unit) \<times> ('m, 'o) agent" where
  "train_epoch E name k a epoch train_loader val_loader =
     (let a1 = a\<lparr>trace := trace a @ [EvEpoch epoch]\<rparr>;
          a2 = a1\<lparr>model_training := True, trace := trace a1 @ [EvModelTrain]\<rparr>;
          a3 = a2\<lparr>optimizer := scheduler_step E (optimizer a2) epoch,
                  trace := trace a2 @ [EvSchedulerStep epoch]\<rparr>
      in case train_batches E k (length train_loader) a3 0 train_loader
                AverageMeter AverageMeter of
           (Inl e, a4) \<Rightarrow> (Inl e, a4)
         | (Inr (losses, m), a4) \<Rightarrow>
            (case (case k of None \<Rightarrow> Inr 0 | Some k' \<Rightarrow> avg m) of
               Inl e \<Rightarrow> (Inl e, a4)
             | Inr x \<Rightarrow>
                (case val_loader of
                   None \<Rightarrow> (Inr (), a4)
                 | Some vl \<Rightarrow>
                    (case validation E a4 name vl of
                       (Inl e, a5) \<Rightarrow> (Inl e, a5)
                     | (Inr r, a5) \<Rightarrow> (Inr (), a5)))))"

fun epochs ::
  "('m, 'o) env \<Rightarrow> string \<Rightarrow> metric option \<Rightarrow> ('m, 'o) agent \<Rightarrow> nat list \<Rightarrow> batch list
     \<Rightarrow> batch list option \<Rightarrow> (error + unit) \<times> ('m, 'o) agent" where
  "epochs E name k a [] train_loader val_loader = (Inr (), a)"
| "epochs E name k a (epoch # es) train_loader val_loader =
     (case train_epoch E name k a epoch train_loader val_loader of
        (Inl e, a') \<Rightarrow> (Inl e, a')
      | (Inr u, a') \<Rightarrow> epochs E name k a' es train_loader val_loader)"

definition learn_batch ::
  "('m, 'o) env \<Rightarrow> ('m, 'o) agent \<Rightarrow> string \<Rightarrow> batch list \<Rightarrow> batch list option
     \<Rightarrow> (error + unit) \<times> ('m, 'o) agent" where
  "learn_batch E a train_name train_loader val_loader =
     (let a0 = (if reset_optimizer a then init_optimizer E a else a) in
      case output_modes train_name of
        None \<Rightarrow> (Inl KeyError, a0)
      | Some output_mode \<Rightarrow>
         (let a1 = (if output_mode = ''classification''
                    then a0\<lparr>criterion_fn := Some CrossEntropyLoss\<rparr>
                    else if output_mode = ''regression''
                    then a0\<lparr>criterion_fn := Some MSELoss\<rparr>
                    else a0)
          in case schedule (config a1) of
               [] \<Rightarrow> (Inl IndexError, a1)
             | x # xs \<Rightarrow>
                 epochs E train_name (select_metric train_name output_mode) a1
                   [0..<nat (last (schedule (config a1)))] train_loader val_loader))"

subsection \<open>learn_stream and add_valid_output_dim\<close>

definition learn_stream ::
  "('m, 'o) agent \<Rightarrow> 'd \<Rightarrow> 'l \<Rightarrow> (error + unit) \<times> ('m, 'o) agent" where
  "learn_stream a data label = (Inl (AssertionError ''No implementation yet''), a)"

text \<open>\<open>add_valid_output_dim(self, dim=0)\<close>: \<open>None\<close> stands for a call that leaves
  \<open>dim\<close> out (the parameter is \<open>dim_arg\<close> here). The result is the pair of the
  returned value and the agent.\<close>

definition add_valid_output_dim :: "('m, 'o) agent \<Rightarrow> int option \<Rightarrow> int \<times> ('m, 'o) agent" where
  "add_valid_output_dim a dim_arg =
     (let d = (case dim_arg of None \<Rightarrow> 0 | Some d \<Rightarrow> d);
          old = (case valid_out_dim a of ALL_OUT \<Rightarrow> 0 | Dim n \<Rightarrow> n)
      in (old + d, a\<lparr>valid_out_dim := Dim (old + d)\<rparr>))"

subsection \<open>Sequences of calls\<close>

text \<open>The methods a caller can invoke on an agent, and the agent after a sequence of such
  calls (a call that raises leaves the agent as it was at the raise). \<open>forward\<close>,
  \<open>criterion\<close>, \<open>count_parameter\<close> and \<open>save_model\<close> assign no attribute
  of the agent.\<close>

datatype call =
    Forward net_input
  | Predict net_input
  | Validation string "batch list"
  | Criterion net_output "real list" "string list"
  | UpdateModel net_input "real list" "string list"
  | LearnBatch string "batch list" "batch list option"
  | LearnStream
  | AddValidOutputDim "int option"
  | InitOptimizer
  | CountParameter
  | SaveModel string

fun run_call :: "('m, 'o) env \<Rightarrow> ('m, 'o) agent \<Rightarrow> call \<Rightarrow> ('m, 'o) agent" where
  "run_call E a (Forward inp) = a"
| "run_call E a (Predict inp) = snd (predict E a inp)"
| "run_call E a (Validation name dl) = snd (validation E a name dl)"
| "run_call E a (Criterion preds targets tasks) = a"
| "run_call E a (UpdateModel inp targets tasks) = snd (update_model E a inp targets tasks)"
| "run_call E a (LearnBatch name train_loader val_loader) =
     snd (learn_batch E a name train_loader val_loader)"
| "run_call E a LearnStream = snd (learn_stream a () ())"
| "run_call E a (AddValidOutputDim dim_arg) = snd (add_valid_output_dim a dim_arg)"
| "run_call E a InitOptimizer = init_optimizer E a"
| "run_call E a CountParameter = a"
| "run_call E a (SaveModel filename) = a"

fun run_calls :: "('m, 'o) env \<Rightarrow> ('m, 'o) agent \<Rightarrow> call list \<Rightarrow> ('m, 'o) agent" where
  "run_calls E a [] = a"
| "run_calls E a (c # cs) = run_calls E (run_call E a c) cs"

text \<open>Every \<open>add_valid_output_dim\<close> of the sequence is given a positive \<open>dim\<close>.\<close>

fun positive_dim :: "call \<Rightarrow> bool" where
  "positive_dim (AddValidOutputDim dim_arg) = (case dim_arg of None \<Rightarrow> False | Some d \<Rightarrow> 0 < d)"
| "positive_dim c = True"

text \<open>The order on the states of \<open>valid_out_dim\<close>: the sentinel may be left for any
  integer, an integer only for one at least as large.\<close>

fun dim_le :: "out_dim \<Rightarrow> out_dim \<Rightarrow> bool" where
  "dim_le ALL_OUT d = True"
| "dim_le (Dim n) ALL_OUT = False"
| "dim_le (Dim n) (Dim m) = (n \<le> m)"

subsection \<open>Vocabulary of the statements\<close>

text \<open>The term of one task in the weighted sum of the multi-head loss: the loss of the
  predictions and targets restricted to the positions labelled with the task, times the
  number of those positions.\<close>

definition task_term ::
  "('m, 'o) env \<Rightarrow> loss_fn \<Rightarrow> real list \<Rightarrow> string list \<Rightarrow> string \<times> tensor \<Rightarrow> real" where
  "task_term E L targets tasks kv =
     loss_of E L (map (\<lambda>i. snd kv ! i) (match_inds tasks (fst kv)))
                 (map (\<lambda>i. targets ! i) (match_inds tasks (fst kv)))
       * real (length (match_inds tasks (fst kv)))"


text \<open>The calls recorded by one pass of the epoch loop of \<open>learn_batch\<close> over
  \<open>n\<close> batches, with or without a validation loader.\<close>

definition epoch_events :: "string \<Rightarrow> nat \<Rightarrow> bool \<Rightarrow> nat \<Rightarrow> event list" where
  "epoch_events name n with_val epoch =
     [EvEpoch epoch, EvModelTrain, EvSchedulerStep epoch] @ replicate n EvUpdateModel
       @ (if with_val then [EvValidation name] else [])"

text \<open>Readings of a trace: the epochs handed to \<open>scheduler.step\<close>, the epochs whose
  pass was started, and the names with which \<open>validation\<close> was called, each in the
  order of the calls.\<close>

definition scheduler_steps :: "event list \<Rightarrow> nat list" where
  "scheduler_steps tr = concat (map (\<lambda>ev. case ev of EvSchedulerStep e \<Rightarrow> [e] | _ \<Rightarrow> []) tr)"

definition training_passes :: "event list \<Rightarrow> nat list" where
  "training_passes tr = concat (map (\<lambda>ev. case ev of EvEpoch e \<Rightarrow> [e] | _ \<Rightarrow> []) tr)"

definition validations :: "event list \<Rightarrow> string list" where
  "validations tr = concat (map (\<lambda>ev. case ev of EvValidation name \<Rightarrow> [name] | _ \<Rightarrow> []) tr)"

subsection \<open>Concrete collaborators for evaluation\<close>

text \<open>A small environment on which the definitions can be run: the network returns its
  input as the output of the head \<open>All\<close> (or, for a dictionary input, an output of the
  sequence classifier), loss and metric are the mean and the sum of the entries.\<close>

definition toy_metric :: "tensor \<Rightarrow> real list \<Rightarrow> real" where
  "toy_metric p t = sum_list (concat p)"

definition toy_loss :: "loss_fn \<Rightarrow> tensor \<Rightarrow> real list \<Rightarrow> real" where
  "toy_loss L p t = sum_list (concat p) / real (length p)"

definition toy_forward :: "nat \<Rightarrow> bool \<Rightarrow> net_input \<Rightarrow> net_output" where
  "toy_forward w mode inp =
     (case inp of
        TensorInput t \<Rightarrow> DictOutput [(''All'', t)]
      | ListInput ts \<Rightarrow> DictOutput [(''All'', concat ts)]
      | DictInput i m s l \<Rightarrow> SequenceClassifierOutput [(''loss'', [[0]]), (''logits'', i)])"

definition toy_env :: "(nat, nat) env" where
  "toy_env =
     \<lparr>forward_fn = toy_forward, loss_of = toy_loss, zero_grad = (\<lambda>w. w),
      backward = (\<lambda>w inp targets tasks. w), optimizer_step = (\<lambda>s w. (Suc s, Suc w)),
      new_optimizer = (\<lambda>c w. 0), scheduler_step = (\<lambda>s epoch. s),
      accuracy = toy_metric, matthews = toy_metric, pearson_and_spearman = toy_metric\<rparr>"

definition toy_config :: config where
  "toy_config = \<lparr>schedule = [1], print_freq = 0, out_dim = [(''All'', 2)], gpuid = [-1]\<rparr>"

text \<open>A single-head agent on the CPU that has been trained on a regression task.\<close>

definition toy_agent :: "(nat, nat) agent" where
  "toy_agent =
     \<lparr>config = toy_config, args_output_mode = ''classification'', multihead = False,
      gpu = False, reset_optimizer = False, training = True, model_training = True,
      model = 0, optimizer = 0, criterion_fn = Some MSELoss, valid_out_dim = ALL_OUT,
      trace = []\<rparr>"

text \<open>A batch of eight samples, three of task \<open>A\<close> and five of task \<open>B\<close>; on the
  samples of its own task the head of \<open>A\<close> has mean loss 1 and the head of \<open>B\<close>
  mean loss 2 under \<open>toy_loss\<close>.\<close>

definition two_task_preds :: net_output where
  "two_task_preds =
     DictOutput [(''A'', [[1], [1], [1], [9], [9], [9], [9], [9]]),
                 (''B'', [[7], [7], [7], [1], [2], [3], [2], [2]])]"

definition two_task_labels :: "string list" where
  "two_task_labels = [''A'', ''A'', ''A'', ''B'', ''B'', ''B'', ''B'', ''B'']"


text \<open>A loader of one batch of two samples.\<close>

definition toy_loader :: "batch list" where
  "toy_loader = [(TensorInput [[1], [0]], [1, 0], [''All'', ''All''])]"

section \<open>Properties\<close>

subsection \<open>Auxiliary facts: selection, loss and meter\<close>

lemma slice_cols_nonneg: "0 \<le> k \<Longrightarrow> slice_cols k p = map (take (nat k)) p"
  by (simp add: slice_cols_def)

lemma updates_sum: "meter_sum (updates m xs) = meter_sum m + (\<Sum>(v, w)\<leftarrow>xs. v * w)"
  by (induction m xs rule: updates.induct) (simp_all add: update_def)

lemma updates_count: "meter_count (updates m xs) = meter_count m + (\<Sum>(v, w)\<leftarrow>xs. w)"
  by (induction m xs rule: updates.induct) (simp_all add: update_def)

lemma sum_list_mset_cong:
  fixes f :: "'a \<Rightarrow> real"
  assumes "mset xs = mset ys"
  shows "sum_list (map f xs) = sum_list (map f ys)"
proof -
  have "sum_mset (image_mset f (mset xs)) = sum_mset (image_mset f (mset ys))"
    using assms by simp
  then show ?thesis by (simp only: mset_map[symmetric] sum_mset_sum_list)
qed

lemma index_select_match:
  "length tasks \<le> length xs \<Longrightarrow>
     index_select xs (match_inds tasks t) = Inr (map (\<lambda>i. xs ! i) (match_inds tasks t))"
  by (auto simp add: index_select_def match_inds_def list_all_iff)

lemma criterion_tasks_sum:
  assumes "criterion_fn a = Some L" and "length tasks \<le> length targets"
    and "list_all (\<lambda>kv. length tasks \<le> length (snd kv)) kvs"
  shows "\<exists>l'. criterion_tasks E a kvs targets tasks l = Inr l'
            \<and> loss_value l' = loss_value l + sum_list (map (task_term E L targets tasks) kvs)"
  using assms(3)
proof (induction kvs arbitrary: l)
  case Nil
  then show ?case by simp
next
  case (Cons kv kvs)
  obtain t p where kv: "kv = (t, p)" by (cases kv)
  from Cons.prems have len: "length tasks \<le> length p"
    and rest: "list_all (\<lambda>kv. length tasks \<le> length (snd kv)) kvs"
    by (simp_all add: kv)
  show ?case
  proof (cases "match_inds tasks t = []")
    case True
    with Cons.IH[OF rest, of l] show ?thesis
      by (simp add: kv task_term_def Let_def)
  next
    case False
    let ?l = "LossTensor (loss_value l + task_term E L targets tasks kv)"
    from Cons.IH[OF rest, of ?l] False show ?thesis
      by (simp add: kv task_term_def index_select_match len assms(1,2) call_criterion_fn_def
            add.assoc Let_def)
  qed
qed

lemma index_select_nonempty:
  "index_select xs inds = Inr ys \<Longrightarrow> inds \<noteq> [] \<Longrightarrow> xs \<noteq> []"
  by (cases inds) (auto simp add: index_select_def split: if_splits)

lemma criterion_tasks_tensor:
  "criterion_tasks E a kvs targets tasks l = Inr (LossTensor y) \<Longrightarrow>
     (\<exists>z. l = LossTensor z) \<or> targets \<noteq> []"
proof (induction kvs arbitrary: l)
  case Nil
  then show ?case by simp
next
  case (Cons kv kvs)
  obtain t p where kv: "kv = (t, p)" by (cases kv)
  show ?case
  proof (cases "match_inds tasks t = []")
    case True
    with Cons show ?thesis by (simp add: kv Let_def)
  next
    case False
    with Cons.prems obtain tg where "index_select targets (match_inds tasks t) = Inr tg"
      by (auto simp add: kv Let_def split: sum.splits)
    from index_select_nonempty[OF this False] show ?thesis by simp
  qed
qed

lemma div_loss_pos:
  "0 < n \<Longrightarrow> \<exists>l'. div_loss l n = Inr l' \<and> loss_value l' = loss_value l / real n"
  by (cases l) simp_all

lemma match_inds_A: "match_inds two_task_labels ''A'' = [0, 1, 2]"
  by (simp add: match_inds_def two_task_labels_def upt_rec)

lemma match_inds_B: "match_inds two_task_labels ''B'' = [3, 4, 5, 6, 7]"
  by (simp add: match_inds_def two_task_labels_def upt_rec)







subsection \<open>Auxiliary facts: what the methods leave unchanged\<close>

lemma output_modes_values:
  "output_modes name = Some mode \<Longrightarrow> mode = ''classification'' \<or> mode = ''regression''"
  by (auto simp add: output_modes_def split: if_splits)

lemma predict_state: "snd (predict E a inp) = a\<lparr>model_training := False\<rparr>"
  by (simp add: predict_def Let_def)

lemma model_training_False_id:
  "\<not> model_training (a :: ('m, 'o) agent) \<Longrightarrow> a\<lparr>model_training := False\<rparr> = a"
  by (cases a) simp

lemma predict_eval:
  "\<not> model_training a \<Longrightarrow> predict E a inp = (forward_fn E (model a) False inp, a)"
  by (simp add: predict_def Let_def model_training_False_id)

lemma validation_batches_state:
  "\<not> model_training a \<Longrightarrow> snd (validation_batches E k a dl m) = a"
proof (induction dl arbitrary: m)
  case Nil
  then show ?case by simp
next
  case (Cons b dl)
  obtain inp target task where b: "b = (inp, target, task)" by (cases b)
  show ?case
    using Cons
    by (auto simp add: b predict_eval split: sum.splits option.splits)
qed

lemma validation_batches_eval:
  "validation_batches E k (eval_mode a) dl m
     = (fst (validation_batches E k (eval_mode a) dl m), eval_mode a)"
  using validation_batches_state[of "eval_mode a" E k dl m]
  by (cases "validation_batches E k (eval_mode a) dl m") (simp add: eval_mode_def train_def)

lemma assign_criterion_fn_frame:
  "valid_out_dim (assign_criterion_fn c a) = valid_out_dim a"
  "optimizer (assign_criterion_fn c a) = optimizer a"
  "model (assign_criterion_fn c a) = model a"
  "config (assign_criterion_fn c a) = config a"
  "trace (assign_criterion_fn c a) = trace a"
  "training (assign_criterion_fn c a) = training a"
  "args_output_mode (assign_criterion_fn c a) = args_output_mode a"
  by (induction c a rule: assign_criterion_fn.induct) simp_all

lemma validation_Some:
  assumes "output_modes name = Some mode"
  shows "validation E a name dl =
     (let a1 = assign_criterion_fn (select_metric name mode)
                 (a\<lparr>trace := trace a @ [EvValidation name]\<rparr>);
          a4 = train a1 (training a)
      in case fst (validation_batches E (select_metric name mode) (eval_mode a1) dl AverageMeter) of
           Inl e \<Rightarrow> (Inl e, eval_mode a1)
         | Inr m \<Rightarrow>
            (case select_metric name (args_output_mode a) of
               None \<Rightarrow> (Inr None, a4)
             | Some k \<Rightarrow>
                 (if select_metric name mode = Some k then
                    (case avg m of
                       Inl e \<Rightarrow> (Inl e, a4)
                     | Inr v \<Rightarrow> (Inr (Some v), a4))
                  else (Inl NameError, a4))))"
proof -
  define a1 where "a1 = assign_criterion_fn (select_metric name mode)
                 (a\<lparr>trace := trace a @ [EvValidation name]\<rparr>)"
  obtain r0 where vb: "validation_batches E (select_metric name mode) (eval_mode a1) dl AverageMeter
      = (r0, eval_mode a1)"
    using validation_batches_eval by blast
  have t: "train (eval_mode a1) b = train a1 b" for b
    by (simp add: train_def eval_mode_def)
  have f: "training a1 = training a" "args_output_mode (train a1 b) = args_output_mode a" for b
    by (simp_all add: a1_def assign_criterion_fn_frame train_def)
  show ?thesis
    unfolding validation_def Let_def assms option.case a1_def[symmetric] vb
    by (simp add: t f split: sum.splits option.splits)
qed

lemma validation_frame:
  "valid_out_dim (snd (validation E a name dl)) = valid_out_dim a
   \<and> optimizer (snd (validation E a name dl)) = optimizer a
   \<and> model (snd (validation E a name dl)) = model a
   \<and> config (snd (validation E a name dl)) = config a
   \<and> trace (snd (validation E a name dl)) = trace a @ [EvValidation name]"
proof (cases "output_modes name")
  case None
  then show ?thesis by (simp add: validation_def)
next
  case (Some mode)
  show ?thesis
    by (simp add: validation_Some[OF Some] Let_def assign_criterion_fn_frame train_def
          eval_mode_def split: sum.splits option.splits)
qed

lemma assign_criterion_fn_value:
  assumes "output_modes name = Some mode"
  shows "criterion_fn (assign_criterion_fn (select_metric name mode) a)
     = Some (if name \<noteq> ''cola'' \<and> output_modes name = Some ''regression''
             then MSELoss else CrossEntropyLoss)"
  using output_modes_values[OF assms] by (auto simp add: assms select_metric_def)

lemma update_model_frame:
  "valid_out_dim (snd (update_model E a inp targets tasks)) = valid_out_dim a
   \<and> config (snd (update_model E a inp targets tasks)) = config a
   \<and> trace (snd (update_model E a inp targets tasks)) = trace a @ [EvUpdateModel]"
  by (simp add: update_model_def Let_def split: sum.splits loss.splits prod.splits)

lemma train_batches_frame:
  "valid_out_dim (snd (train_batches E k n a i bs losses m)) = valid_out_dim a
   \<and> config (snd (train_batches E k n a i bs losses m)) = config a"
proof (induction bs arbitrary: a i losses m)
  case Nil
  then show ?case by simp
next
  case (Cons b bs)
  obtain inp target task where b: "b = (inp, target, task)" by (cases b)
  show ?case
  proof (cases "to_device (gpu a) inp target")
    case (Inl e)
    then show ?thesis by (simp add: b)
  next
    case (Inr inp')
    obtain r a' where um: "update_model E a inp' target task = (r, a')"
      by (cases "update_model E a inp' target task")
    with update_model_frame[of E a inp' target task]
    have fr: "valid_out_dim a' = valid_out_dim a" "config a' = config a" by simp_all
    show ?thesis
      using Cons.IH[of a'] fr
      by (auto simp add: b Inr um Let_def split: sum.splits prod.splits option.splits)
  qed
qed

lemma train_batches_trace:
  "train_batches E k n a i bs losses m = (Inr r, a') \<Longrightarrow>
     trace a' = trace a @ replicate (length bs) EvUpdateModel"
proof (induction bs arbitrary: a i losses m)
  case Nil
  then show ?case by simp
next
  case (Cons b bs)
  obtain inp target task where b: "b = (inp, target, task)" by (cases b)
  from Cons.prems obtain inp' where Inr: "to_device (gpu a) inp target = Inr inp'"
    by (cases "to_device (gpu a) inp target") (simp_all add: b)
  obtain r1 a1 where um: "update_model E a inp' target task = (r1, a1)"
    by (cases "update_model E a inp' target task")
  with update_model_frame[of E a inp' target task]
  have tr: "trace a1 = trace a @ [EvUpdateModel]" by simp
  from Cons.prems obtain i' losses' m' where
    "train_batches E k n a1 i' bs losses' m' = (Inr r, a')"
    by (auto simp add: b Inr um Let_def split: sum.splits prod.splits option.splits if_splits)
  from Cons.IH[OF this] tr show ?case
    by (simp add: replicate_append_same)
qed

lemma train_epoch_frame:
  "valid_out_dim (snd (train_epoch E name k a epoch train_loader val_loader)) = valid_out_dim a
   \<and> config (snd (train_epoch E name k a epoch train_loader val_loader)) = config a"
proof -
  define a3 where "a3 = a\<lparr>model_training := True,
      optimizer := scheduler_step E (optimizer a) epoch,
      trace := trace a @ [EvEpoch epoch, EvModelTrain, EvSchedulerStep epoch]\<rparr>"
  obtain r a4 where tb: "train_batches E k (length train_loader) a3 0 train_loader
      AverageMeter AverageMeter = (r, a4)"
    by (cases "train_batches E k (length train_loader) a3 0 train_loader AverageMeter AverageMeter")
  with train_batches_frame[of E k "length train_loader" a3 0 train_loader AverageMeter AverageMeter]
  have f4: "valid_out_dim a4 = valid_out_dim a" "config a4 = config a"
    by (simp_all add: a3_def)
  have f5: "valid_out_dim a5 = valid_out_dim a \<and> config a5 = config a"
    if "validation E a4 name vl = (r5, a5)" for vl r5 a5
    using validation_frame[of E a4 name vl] f4 that by simp
  show ?thesis
    using f4 f5
    by (auto simp add: train_epoch_def Let_def a3_def[symmetric] tb
          split: sum.splits option.splits prod.splits)
qed

lemma epochs_frame:
  "valid_out_dim (snd (epochs E name k a es train_loader val_loader)) = valid_out_dim a
   \<and> config (snd (epochs E name k a es train_loader val_loader)) = config a"
proof (induction es arbitrary: a)
  case Nil
  then show ?case by simp
next
  case (Cons epoch es)
  obtain r a' where te: "train_epoch E name k a epoch train_loader val_loader = (r, a')"
    by (cases "train_epoch E name k a epoch train_loader val_loader")
  with train_epoch_frame[of E name k a epoch train_loader val_loader]
  have "valid_out_dim a' = valid_out_dim a" "config a' = config a" by simp_all
  with Cons.IH[of a'] show ?case
    by (simp add: te split: sum.splits)
qed

lemma train_epoch_trace:
  assumes "train_epoch E name k a epoch train_loader val_loader = (Inr u, a')"
  shows "trace a' = trace a @ epoch_events name (length train_loader) (val_loader \<noteq> None) epoch"
proof -
  define a3 where "a3 = a\<lparr>model_training := True,
      optimizer := scheduler_step E (optimizer a) epoch,
      trace := trace a @ [EvEpoch epoch, EvModelTrain, EvSchedulerStep epoch]\<rparr>"
  obtain r a4 where tb: "train_batches E k (length train_loader) a3 0 train_loader
      AverageMeter AverageMeter = (r, a4)"
    by (cases "train_batches E k (length train_loader) a3 0 train_loader AverageMeter AverageMeter")
  from assms obtain lm where r: "r = Inr lm"
    by (cases r) (auto simp add: train_epoch_def Let_def a3_def[symmetric] tb)
  from train_batches_trace[OF tb[unfolded r]]
  have t4: "trace a4 = trace a @ [EvEpoch epoch, EvModelTrain, EvSchedulerStep epoch]
      @ replicate (length train_loader) EvUpdateModel"
    by (simp add: a3_def)
  have t5: "trace a5 = trace a4 @ [EvValidation name]"
    if "validation E a4 name vl = (r5, a5)" for vl r5 a5
    using validation_frame[of E a4 name vl] that by simp
  from assms show ?thesis
    using t4 t5
    by (auto simp add: train_epoch_def Let_def a3_def[symmetric] tb r epoch_events_def
          split: sum.splits option.splits prod.splits)
qed

lemma epochs_trace:
  "epochs E name k a es train_loader val_loader = (Inr u, a') \<Longrightarrow>
     trace a' = trace a
        @ concat (map (epoch_events name (length train_loader) (val_loader \<noteq> None)) es)"
proof (induction es arbitrary: a)
  case Nil
  then show ?case by simp
next
  case (Cons epoch es)
  obtain r a1 where te: "train_epoch E name k a epoch train_loader val_loader = (r, a1)"
    by (cases "train_epoch E name k a epoch train_loader val_loader")
  from Cons.prems obtain u1 where r: "r = Inr u1"
    by (cases r) (simp_all add: te)
  from Cons.prems have "epochs E name k a1 es train_loader val_loader = (Inr u, a')"
    by (simp add: te r)
  from Cons.IH[OF this] train_epoch_trace[OF te[unfolded r]] show ?case
    by simp
qed

lemma learn_batch_frame:
  "valid_out_dim (snd (learn_batch E a name train_loader val_loader)) = valid_out_dim a"
  using epochs_frame[of E name]
  by (simp add: learn_batch_def init_optimizer_def Let_def split: option.splits list.splits)

lemma learn_batch_trace:
  assumes "learn_batch E a name train_loader val_loader = (Inr u, a')"
  shows "schedule (config a) \<noteq> []
       \<and> trace a' = trace a @ (if reset_optimizer a then [EvInitOptimizer] else [])
            @ concat (map (epoch_events name (length train_loader) (val_loader \<noteq> None))
                        [0..<nat (last (schedule (config a)))])"
proof -
  define a0 where "a0 = (if reset_optimizer a then init_optimizer E a else a)"
  have a0: "config a0 = config a"
      "trace a0 = trace a @ (if reset_optimizer a then [EvInitOptimizer] else [])"
    by (simp_all add: a0_def init_optimizer_def)
  from assms obtain mode where om: "output_modes name = Some mode"
    by (cases "output_modes name") (auto simp add: learn_batch_def Let_def)
  define a1 where "a1 = (if mode = ''classification''
                    then a0\<lparr>criterion_fn := Some CrossEntropyLoss\<rparr>
                    else if mode = ''regression''
                    then a0\<lparr>criterion_fn := Some MSELoss\<rparr>
                    else a0)"
  have a1: "config a1 = config a" "trace a1 = trace a0"
    by (simp_all add: a1_def a0)
  from assms have ne: "schedule (config a) \<noteq> []"
    by (auto simp add: learn_batch_def Let_def om a0_def[symmetric] a1_def[symmetric] a1
          split: list.splits)
  with assms have "epochs E name (select_metric name mode) a1
      [0..<nat (last (schedule (config a)))] train_loader val_loader = (Inr u, a')"
    by (auto simp add: learn_batch_def Let_def om a0_def[symmetric] a1_def[symmetric] a1
          split: list.splits)
  from epochs_trace[OF this] ne show ?thesis
    by (simp add: a1 a0)
qed

subsection \<open>Auxiliary facts: readings of traces and the order on valid_out_dim\<close>

lemma scheduler_steps_append: "scheduler_steps (xs @ ys) = scheduler_steps xs @ scheduler_steps ys"
  by (simp add: scheduler_steps_def)

lemma training_passes_append: "training_passes (xs @ ys) = training_passes xs @ training_passes ys"
  by (simp add: training_passes_def)

lemma validations_append: "validations (xs @ ys) = validations xs @ validations ys"
  by (simp add: validations_def)

lemma replicate_update_readings:
  "scheduler_steps (replicate n EvUpdateModel) = []"
  "training_passes (replicate n EvUpdateModel) = []"
  "validations (replicate n EvUpdateModel) = []"
  by (induction n) (simp_all add: scheduler_steps_def training_passes_def validations_def)

lemma epoch_events_readings:
  "scheduler_steps (epoch_events name n v e) = [e]"
  "training_passes (epoch_events name n v e) = [e]"
  "validations (epoch_events name n v e) = (if v then [name] else [])"
  by (simp_all add: epoch_events_def scheduler_steps_append training_passes_append
        validations_append replicate_update_readings)
     (simp_all add: scheduler_steps_def training_passes_def validations_def)

lemma epochs_readings:
  "scheduler_steps (concat (map (epoch_events name n v) es)) = es"
  "training_passes (concat (map (epoch_events name n v) es)) = es"
  "validations (concat (map (epoch_events name n v) es))
     = (if v then replicate (length es) name else [])"
  by (induction es)
     (simp_all add: scheduler_steps_append training_passes_append validations_append
        epoch_events_readings, simp_all add: scheduler_steps_def training_passes_def validations_def)

lemma dim_le_refl: "dim_le d d"
  by (cases d) simp_all

lemma dim_le_trans: "dim_le x y \<Longrightarrow> dim_le y z \<Longrightarrow> dim_le x z"
  by (cases x; cases y; cases z) simp_all

lemma run_call_dim:
  "positive_dim c \<Longrightarrow> dim_le (valid_out_dim a) (valid_out_dim (run_call E a c))"
proof (cases c)
  case (AddValidOutputDim d)
  assume "positive_dim c"
  with AddValidOutputDim show ?thesis
    by (cases d; cases "valid_out_dim a") (simp_all add: add_valid_output_dim_def)
qed (simp_all add: predict_state validation_frame update_model_frame learn_batch_frame
       learn_stream_def init_optimizer_def dim_le_refl)

lemma run_calls_dim:
  "list_all positive_dim cs \<Longrightarrow> dim_le (valid_out_dim a) (valid_out_dim (run_calls E a cs))"
proof (induction cs arbitrary: a)
  case Nil
  then show ?case by (simp add: dim_le_refl)
next
  case (Cons c cs)
  then show ?case
    using dim_le_trans[OF run_call_dim[of c a E]] by simp
qed

subsection \<open>Runs of the concrete agent\<close>

lemma toy_validation:
  "validation toy_env toy_agent ''mrpc'' toy_loader
     = (Inr (Some 1),
        toy_agent\<lparr>criterion_fn := Some CrossEntropyLoss, trace := [EvValidation ''mrpc'']\<rparr>)"
  by (simp add: validation_def output_modes_def select_metric_def toy_agent_def toy_loader_def
        eval_mode_def train_def to_device_def predict_def toy_env_def toy_forward_def
        accumulate_acc_def accumulate_def update_def AverageMeter_def toy_metric_def avg_def
        Let_def)

lemma toy_learn_batch:
  "learn_batch toy_env toy_agent ''mrpc'' toy_loader (Some toy_loader)
     = (Inr (),
        toy_agent\<lparr>criterion_fn := Some CrossEntropyLoss, model := 1, optimizer := 1,
                   trace := [EvEpoch 0, EvModelTrain, EvSchedulerStep 0, EvUpdateModel,
                             EvValidation ''mrpc'']\<rparr>)"
  by (simp add: learn_batch_def output_modes_def select_metric_def Let_def
        toy_agent_def toy_config_def toy_loader_def train_epoch_def to_device_def
        update_model_def toy_env_def toy_forward_def criterion_def call_criterion_fn_def
        toy_loss_def accumulate_acc_def accumulate_def update_def AverageMeter_def
        toy_metric_def avg_def progress_due_def validation_def eval_mode_def train_def
        predict_def)

subsection \<open>The multi-head loss\<close>

text \<open>
  Claim C1, for batches that are not empty. In multi-head mode, with a loss function
  configured, for a predictions map whose heads all hold \<open>N\<close> rows, \<open>N\<close> targets and
  \<open>N\<close> task labels, \<open>N\<close> at least one, \<open>criterion\<close> returns the sum over the
  tasks of the predictions map of the loss on the samples of the task times their number,
  divided by \<open>N\<close>.
\<close>

theorem criterion_multihead:
  assumes "multihead a" and "criterion_fn a = Some L"
    and "length targets = N" and "length tasks = N"
    and "list_all (\<lambda>kv. length (snd kv) = N) (items preds)"
    and "0 < N"
  shows "\<exists>l. criterion E a preds targets tasks = Inr l
           \<and> loss_value l =
               (\<Sum>kv\<leftarrow>items preds. task_term E L targets tasks kv) / real N"
proof -
  have "list_all (\<lambda>kv. length tasks \<le> length (snd kv)) (items preds)"
    using assms(4,5) by (simp add: list_all_iff)
  from criterion_tasks_sum[OF assms(2) _ this, of targets E "PyNumber 0"] assms(3,4)
  obtain l' where l': "criterion_tasks E a (items preds) targets tasks (PyNumber 0) = Inr l'"
      "loss_value l' = sum_list (map (task_term E L targets tasks) (items preds))"
    by auto
  from div_loss_pos[OF assms(6), of l'] obtain l where "div_loss l' N = Inr l"
      "loss_value l = loss_value l' / real N" by blast
  with l' show ?thesis
    by (simp add: criterion_def assms(1,3))
qed

text \<open>The example of the specification: task counts 3 and 5, mean losses 1 and 2.\<close>

theorem criterion_multihead_witness:
  "\<exists>l. criterion toy_env (toy_agent\<lparr>multihead := True\<rparr>) two_task_preds
          [0, 0, 0, 0, 0, 0, 0, 0] two_task_labels = Inr l
       \<and> loss_value l = (1 * 3 + 2 * 5) / 8 \<and> loss_value l = 1.625"
  using criterion_multihead [of "toy_agent\<lparr>multihead := True\<rparr>" MSELoss
          "[0, 0, 0, 0, 0, 0, 0, 0]" 8 two_task_labels two_task_preds toy_env]
  by (simp add: toy_agent_def toy_env_def toy_loss_def task_term_def two_task_preds_def
        match_inds_A match_inds_B)
     (simp add: two_task_labels_def)

text \<open>On the batch of size zero \<open>loss /= len(targets)\<close> divides the number 0 by 0: no
  loss is returned.\<close>

theorem criterion_multihead_empty_batch:
  "criterion toy_env (toy_agent\<lparr>multihead := True\<rparr>)
     (DictOutput [(''A'', []), (''B'', [])]) [] [] = Inl ZeroDivisionError"
  by (simp add: criterion_def toy_agent_def match_inds_def Let_def)

subsection \<open>The states of valid_out_dim\<close>

text \<open>
  Claim C2. A new agent holds the sentinel. \<open>add_valid_output_dim\<close> with a positive
  \<open>d\<close> turns the sentinel into \<open>d\<close> and an integer \<open>n\<close> into \<open>n + d\<close>. Over
  any sequence of calls of the methods of the agent in which every
  \<open>add_valid_output_dim\<close> is given a positive \<open>dim\<close>, an integer state is followed
  only by integer states at least as large: the sentinel does not come back and the value
  does not decrease.
\<close>

theorem valid_out_dim_state_machine:
  "(NormalNN E args_mode agent_config net net_mode = Inr a0 \<longrightarrow> valid_out_dim a0 = ALL_OUT)
   \<and> (0 < d \<and> valid_out_dim a = ALL_OUT \<longrightarrow>
        valid_out_dim (snd (add_valid_output_dim a (Some d))) = Dim d)
   \<and> (0 < d \<and> valid_out_dim a = Dim n \<longrightarrow>
        valid_out_dim (snd (add_valid_output_dim a (Some d))) = Dim (n + d))
   \<and> (list_all positive_dim cs \<longrightarrow>
        dim_le (valid_out_dim a) (valid_out_dim (run_calls E a cs)))"
  by (auto simp add: NormalNN_def init_optimizer_def add_valid_output_dim_def run_calls_dim
        split: list.splits)

theorem valid_out_dim_state_machine_witness:
  "NormalNN toy_env ''classification'' toy_config 0 True
     = Inr (toy_agent\<lparr>criterion_fn := None, trace := [EvInitOptimizer]\<rparr>)
   \<and> valid_out_dim (toy_agent\<lparr>criterion_fn := None, trace := [EvInitOptimizer]\<rparr>) = ALL_OUT
   \<and> valid_out_dim (snd (add_valid_output_dim toy_agent (Some 10))) = Dim 10
   \<and> valid_out_dim (snd (add_valid_output_dim (toy_agent\<lparr>valid_out_dim := Dim 10\<rparr>) (Some 5)))
        = Dim 15
   \<and> dim_le (Dim 10)
        (valid_out_dim (run_calls toy_env (toy_agent\<lparr>valid_out_dim := Dim 10\<rparr>)
           [Predict (TensorInput [[1]]), AddValidOutputDim (Some 5), LearnStream,
            SaveModel ''m'']))
   \<and> valid_out_dim (run_calls toy_env (toy_agent\<lparr>valid_out_dim := Dim 10\<rparr>)
           [Predict (TensorInput [[1]]), AddValidOutputDim (Some 5), LearnStream,
            SaveModel ''m'']) = Dim 15"
proof -
  have i: "NormalNN toy_env ''classification'' toy_config 0 True
     = Inr (toy_agent\<lparr>criterion_fn := None, trace := [EvInitOptimizer]\<rparr>)"
    by (simp add: NormalNN_def toy_config_def toy_agent_def init_optimizer_def toy_env_def)
  have p: "list_all positive_dim
      [Predict (TensorInput [[1]]), AddValidOutputDim (Some 5), LearnStream,
            SaveModel ''m'']"
    by simp
  have v: "valid_out_dim toy_agent = ALL_OUT"
    "valid_out_dim (toy_agent\<lparr>valid_out_dim := Dim 10\<rparr>) = Dim 10"
    by (simp_all add: toy_agent_def)
  note t1 = valid_out_dim_state_machine [of toy_env "''classification''" toy_config 0 True
      "toy_agent\<lparr>criterion_fn := None, trace := [EvInitOptimizer]\<rparr>" 10 toy_agent 0 "[]"]
  note t2 = valid_out_dim_state_machine [of toy_env "''classification''" toy_config 0 True
      "toy_agent\<lparr>criterion_fn := None, trace := [EvInitOptimizer]\<rparr>" 5
      "toy_agent\<lparr>valid_out_dim := Dim 10\<rparr>" 10
      "[Predict (TensorInput [[1]]), AddValidOutputDim (Some 5), LearnStream,
            SaveModel ''m'']"]
  have e: "valid_out_dim (run_calls toy_env (toy_agent\<lparr>valid_out_dim := Dim 10\<rparr>)
           [Predict (TensorInput [[1]]), AddValidOutputDim (Some 5), LearnStream,
            SaveModel ''m'']) = Dim 15"
    by (simp add: predict_def add_valid_output_dim_def learn_stream_def Let_def)
  from t1 t2 i p v e show ?thesis by simp
qed

subsection \<open>The single-head loss\<close>

text \<open>
  Claim C3. In single-head mode, with a loss function configured and predictions that hold
  the key \<open>All\<close>: when \<open>valid_out_dim\<close> is a count \<open>k\<close> of columns (an integer
  that is not negative), \<open>criterion\<close> is the loss of the first \<open>k\<close> columns of
  \<open>preds['All']\<close> against all targets; when it is the sentinel, the loss of
  \<open>preds['All']\<close> as it is. (The last part records what the slice \<open>[:, :k]\<close>
  does with a negative integer, which is no count of columns: it drops the last
  \<open>- k\<close> columns.)
\<close>

theorem criterion_single_head_All:
  assumes "\<not> multihead a" and "criterion_fn a = Some L"
    and "map_of (items preds) ''All'' = Some p"
  shows "(\<forall>k. valid_out_dim a = Dim k \<and> 0 \<le> k \<longrightarrow>
            criterion E a preds targets tasks
              = Inr (LossTensor (loss_of E L (map (take (nat k)) p) targets)))
       \<and> (valid_out_dim a = ALL_OUT \<longrightarrow>
            criterion E a preds targets tasks = Inr (LossTensor (loss_of E L p targets)))
       \<and> (\<forall>k. valid_out_dim a = Dim k \<and> k < 0 \<longrightarrow>
            criterion E a preds targets tasks
              = Inr (LossTensor (loss_of E L
                      (map (\<lambda>row. take (length row - nat (- k)) row) p) targets)))"
  using assms
  by (simp add: criterion_def call_criterion_fn_def slice_cols_nonneg)
     (simp add: slice_cols_def)

theorem criterion_single_head_All_witness:
  "criterion toy_env (toy_agent\<lparr>valid_out_dim := Dim 1\<rparr>)
      (DictOutput [(''All'', [[1, 2], [3, 4]])]) [0, 1] [''t'', ''t''] = Inr (LossTensor 2)
   \<and> criterion toy_env toy_agent
      (DictOutput [(''All'', [[1, 2], [3, 4]])]) [0, 1] [''t'', ''t''] = Inr (LossTensor 5)"
  using criterion_single_head_All [of "toy_agent\<lparr>valid_out_dim := Dim 1\<rparr>" MSELoss
          "DictOutput [(''All'', [[1, 2], [3, 4]])]" "[[1, 2], [3, 4]]" toy_env "[0, 1]"
          "[''t'', ''t'']"]
    criterion_single_head_All [of toy_agent MSELoss
          "DictOutput [(''All'', [[1, 2], [3, 4]])]" "[[1, 2], [3, 4]]" toy_env "[0, 1]"
          "[''t'', ''t'']"]
  by (simp add: toy_agent_def toy_env_def toy_loss_def)

subsection \<open>Tasks without samples in the batch\<close>




subsection \<open>validation\<close>

text \<open>
  Claim C5, as the code has it. When \<open>validation\<close> returns, the training flag of the
  agent is what it was before the call and the flag of the network is set to the same value;
  \<open>valid_out_dim\<close>, the optimizer and the network are unchanged; and \<open>criterion_fn\<close>
  has been assigned: the mean squared error for a regression task other than \<open>cola\<close>,
  the cross entropy otherwise.
\<close>

theorem validation_effects:
  assumes "validation E a val_name dataloader = (Inr r, a')"
  shows "training a' = training a \<and> model_training a' = training a
       \<and> valid_out_dim a' = valid_out_dim a \<and> optimizer a' = optimizer a \<and> model a' = model a
       \<and> criterion_fn a' =
            Some (if val_name \<noteq> ''cola'' \<and> output_modes val_name = Some ''regression''
                  then MSELoss else CrossEntropyLoss)"
proof -
  from assms obtain mode where om: "output_modes val_name = Some mode"
    by (cases "output_modes val_name") (auto simp add: validation_def)
  define a1 where "a1 = assign_criterion_fn (select_metric val_name mode)
                 (a\<lparr>trace := trace a @ [EvValidation val_name]\<rparr>)"
  from assms have "a' = train a1 (training a)"
    by (auto simp add: validation_Some[OF om] Let_def a1_def[symmetric]
          split: sum.splits option.splits if_splits)
  moreover have "criterion_fn a1 = Some (if val_name \<noteq> ''cola'' \<and> output_modes val_name = Some ''regression''
             then MSELoss else CrossEntropyLoss)"
    unfolding a1_def by (rule assign_criterion_fn_value[OF om])
  ultimately show ?thesis
    using validation_frame[of E a val_name dataloader] assms
    by (simp add: train_def)
qed

theorem validation_effects_witness:
  "training (snd (validation toy_env toy_agent ''mrpc'' toy_loader))
   \<and> model_training (snd (validation toy_env toy_agent ''mrpc'' toy_loader))
   \<and> valid_out_dim (snd (validation toy_env toy_agent ''mrpc'' toy_loader)) = ALL_OUT
   \<and> criterion_fn (snd (validation toy_env toy_agent ''mrpc'' toy_loader))
        = Some CrossEntropyLoss"
  using validation_effects [OF toy_validation]
  by (simp add: toy_validation) (simp add: toy_agent_def)

text \<open>An agent that holds the mean squared error holds the cross entropy after validating
  \<open>mrpc\<close>.\<close>

theorem validation_assigns_criterion_fn:
  "fst (validation toy_env toy_agent ''mrpc'' toy_loader) = Inr (Some 1)
   \<and> criterion_fn toy_agent = Some MSELoss
   \<and> criterion_fn (snd (validation toy_env toy_agent ''mrpc'' toy_loader))
        = Some CrossEntropyLoss"
  by (simp add: toy_validation) (simp add: toy_agent_def)

subsection \<open>learn_batch\<close>

text \<open>
  Claim C6, with the epochs of \<open>range\<close>. When \<open>learn_batch\<close> returns, the schedule is
  not empty and, with \<open>m\<close> its last element, the call has started one training pass for
  each of the epochs \<open>0, ..., m - 1\<close> in this order, has stepped the scheduler once for
  each of them, and has called \<open>validation\<close> with the name of the task once per epoch
  when a validation loader was given and never otherwise.
\<close>

theorem learn_batch_epochs:
  assumes "learn_batch E a train_name train_loader val_loader = (Inr u, a')"
  shows "schedule (config a) \<noteq> []
       \<and> training_passes (trace a')
           = training_passes (trace a) @ [0..<nat (last (schedule (config a)))]
       \<and> scheduler_steps (trace a')
           = scheduler_steps (trace a) @ [0..<nat (last (schedule (config a)))]
       \<and> validations (trace a')
           = validations (trace a)
               @ (case val_loader of
                    None \<Rightarrow> []
                  | Some vl \<Rightarrow> replicate (nat (last (schedule (config a)))) train_name)"
proof -
  note t = learn_batch_trace[OF assms]
  have i: "scheduler_steps (if reset_optimizer a then [EvInitOptimizer] else []) = []"
      "training_passes (if reset_optimizer a then [EvInitOptimizer] else []) = []"
      "validations (if reset_optimizer a then [EvInitOptimizer] else []) = []"
    by (simp_all add: scheduler_steps_def training_passes_def validations_def)
  from t show ?thesis
    by (cases val_loader)
       (simp_all add: scheduler_steps_append training_passes_append validations_append
          epochs_readings i)
qed

theorem learn_batch_epochs_witness:
  "training_passes (trace (snd (learn_batch toy_env toy_agent ''mrpc'' toy_loader
      (Some toy_loader)))) = [0]
   \<and> scheduler_steps (trace (snd (learn_batch toy_env toy_agent ''mrpc'' toy_loader
      (Some toy_loader)))) = [0]
   \<and> validations (trace (snd (learn_batch toy_env toy_agent ''mrpc'' toy_loader
      (Some toy_loader)))) = [''mrpc'']"
  using learn_batch_epochs [OF toy_learn_batch]
  by (simp add: toy_learn_batch)
     (simp add: toy_agent_def toy_config_def scheduler_steps_def training_passes_def
        validations_def)

text \<open>With the schedule \<open>[1]\<close> the only pass is that of epoch 0: the epoch whose index
  is the last milestone is not run.\<close>

theorem learn_batch_last_milestone_not_run:
  "last (schedule (config toy_agent)) = 1
   \<and> fst (learn_batch toy_env toy_agent ''mrpc'' toy_loader (Some toy_loader)) = Inr ()
   \<and> training_passes (trace (snd (learn_batch toy_env toy_agent ''mrpc'' toy_loader
        (Some toy_loader)))) = [0]
   \<and> 1 \<notin> set (training_passes (trace (snd (learn_batch toy_env toy_agent ''mrpc''
        toy_loader (Some toy_loader)))))"
  by (simp add: toy_learn_batch training_passes_def) (simp add: toy_agent_def toy_config_def)

subsection \<open>The fallback of the single-head loss\<close>

text \<open>
  Claim C7, as the code has it. In single-head mode, with a loss function configured and
  predictions without the key \<open>All\<close>: on a positional output of two or more elements
  \<open>criterion\<close> is the loss of its element at index 1; on a positional output of fewer
  than two elements it raises \<open>IndexError\<close>, and on a dictionary of task heads
  \<open>KeyError\<close>.
\<close>

theorem criterion_fallback:
  assumes "\<not> multihead a" and "criterion_fn a = Some L"
    and "map_of (items preds) ''All'' = None"
  shows "(\<forall>kvs. preds = SequenceClassifierOutput kvs \<and> 2 \<le> length kvs \<longrightarrow>
            criterion E a preds targets tasks
              = Inr (LossTensor (loss_of E L (snd (kvs ! 1)) targets)))
       \<and> (\<forall>kvs. preds = SequenceClassifierOutput kvs \<and> length kvs < 2 \<longrightarrow>
            criterion E a preds targets tasks = Inl IndexError)
       \<and> (\<forall>kvs. preds = DictOutput kvs \<longrightarrow> criterion E a preds targets tasks = Inl KeyError)"
  using assms by (auto simp add: criterion_def)

theorem criterion_fallback_witness:
  "criterion toy_env toy_agent
     (SequenceClassifierOutput [(''loss'', [[0]]), (''logits'', [[1, 2], [3, 4]])]) [0, 1] []
     = Inr (LossTensor 5)
   \<and> criterion toy_env toy_agent (SequenceClassifierOutput [(''logits'', [[1, 2], [3, 4]])])
        [0, 1] [] = Inl IndexError
   \<and> criterion toy_env toy_agent (DictOutput [(''A'', [[1, 2], [3, 4]])]) [0, 1] []
        = Inl KeyError"
  using criterion_fallback [of toy_agent MSELoss
          "SequenceClassifierOutput [(''loss'', [[0]]), (''logits'', [[1, 2], [3, 4]])]"
          toy_env "[0, 1]" "[]"]
    criterion_fallback [of toy_agent MSELoss
          "SequenceClassifierOutput [(''logits'', [[1, 2], [3, 4]])]" toy_env "[0, 1]" "[]"]
    criterion_fallback [of toy_agent MSELoss
          "DictOutput [(''A'', [[1, 2], [3, 4]])]" toy_env "[0, 1]" "[]"]
  by (simp add: toy_agent_def toy_env_def toy_loss_def)

text \<open>A positional output of three elements yields a loss.\<close>

theorem criterion_fallback_three_elements:
  "length [(''loss'', [[0]]), (''logits'', [[1, 2], [3, 4]]), (''hidden_states'', [[0::real]])] \<noteq> 2
   \<and> criterion toy_env toy_agent
        (SequenceClassifierOutput
           [(''loss'', [[0]]), (''logits'', [[1, 2], [3, 4]]), (''hidden_states'', [[0]])])
        [0, 1] [] = Inr (LossTensor 5)"
  by (simp add: criterion_def toy_agent_def toy_env_def toy_loss_def)

subsection \<open>learn_stream\<close>

text \<open>
  Claim C8. Whatever the agent, the data and the labels, \<open>learn_stream\<close> raises the
  assertion error \<open>No implementation yet\<close> and leaves the agent as it was.
\<close>

theorem learn_stream_fails:
  "learn_stream a data label = (Inl (AssertionError ''No implementation yet''), a)"
  by (simp add: learn_stream_def)

subsection \<open>The metric accumulator\<close>

text \<open>
  Claim C9. Two sequences of \<open>update\<close> calls on a new meter that apply the same multiset
  of (value, weight) pairs, of positive total weight, end with the same \<open>avg\<close>: the sum
  of value times weight divided by the sum of the weights.
\<close>

theorem avg_order_invariant:
  assumes "mset xs = mset ys" and "0 < (\<Sum>(v, w)\<leftarrow>xs. w)"
  shows "avg (updates AverageMeter xs) = Inr ((\<Sum>(v, w)\<leftarrow>xs. v * w) / (\<Sum>(v, w)\<leftarrow>xs. w))
       \<and> avg (updates AverageMeter ys) = avg (updates AverageMeter xs)"
proof -
  have s: "(\<Sum>(v, w)\<leftarrow>ys. v * w) = (\<Sum>(v, w)\<leftarrow>xs. v * w)"
    using assms(1) by (rule sum_list_mset_cong[symmetric])
  have c: "(\<Sum>(v, w)\<leftarrow>ys. w) = (\<Sum>(v, w)\<leftarrow>xs. w)"
    using assms(1) by (rule sum_list_mset_cong[symmetric])
  show ?thesis using assms(2)
    by (simp add: avg_def updates_sum updates_count AverageMeter_def s c)
qed

theorem avg_order_invariant_witness:
  "avg (updates AverageMeter [(1, 3), (2, 5)]) = Inr (13 / 8)
   \<and> avg (updates AverageMeter [(2, 5), (1, 3)]) = avg (updates AverageMeter [(1, 3), (2, 5)])"
  using avg_order_invariant [of "[(1, 3), (2, 5)]" "[(2, 5), (1, 3)]"]
  by simp

subsection \<open>add_valid_output_dim without classes\<close>

text \<open>
  Claim C10. \<open>add_valid_output_dim\<close> takes \<open>dim\<close> with the default 0: a call
  without \<open>dim\<close> is the call with \<open>dim = 0\<close>. Whatever the state and \<open>dim\<close>, it
  returns the value that it leaves in \<open>valid_out_dim\<close> and changes nothing else: from
  the sentinel that value is \<open>dim\<close>, from an integer \<open>n\<close> it is \<open>n + dim\<close>. So on
  an agent that holds the sentinel a call without \<open>dim\<close>, or with 0, returns 0 and
  leaves the integer 0, and the single-head loss of that agent is then computed on
  predictions cut to zero columns.
\<close>

theorem add_valid_output_dim_default:
  "add_valid_output_dim a None = add_valid_output_dim a (Some 0)
   \<and> (\<forall>dim_arg. snd (add_valid_output_dim a dim_arg)
          = a\<lparr>valid_out_dim := Dim (fst (add_valid_output_dim a dim_arg))\<rparr>)
   \<and> (\<forall>d. valid_out_dim a = ALL_OUT \<longrightarrow> fst (add_valid_output_dim a (Some d)) = d)
   \<and> (\<forall>n d. valid_out_dim a = Dim n \<longrightarrow> fst (add_valid_output_dim a (Some d)) = n + d)
   \<and> (valid_out_dim a = ALL_OUT \<longrightarrow>
        add_valid_output_dim a None = (0, a\<lparr>valid_out_dim := Dim 0\<rparr>))
   \<and> (valid_out_dim a = ALL_OUT \<and> \<not> multihead a \<and> criterion_fn a = Some L
        \<and> map_of (items preds) ''All'' = Some p \<longrightarrow>
        criterion E (snd (add_valid_output_dim a None)) preds targets tasks
          = Inr (LossTensor (loss_of E L (map (\<lambda>row. []) p) targets)))"
  by (simp add: add_valid_output_dim_def criterion_def call_criterion_fn_def slice_cols_def
        Let_def)

theorem add_valid_output_dim_default_witness:
  "add_valid_output_dim toy_agent None = (0, toy_agent\<lparr>valid_out_dim := Dim 0\<rparr>)
   \<and> add_valid_output_dim (toy_agent\<lparr>valid_out_dim := Dim 7\<rparr>) (Some 3)
        = (10, toy_agent\<lparr>valid_out_dim := Dim 10\<rparr>)
   \<and> add_valid_output_dim (toy_agent\<lparr>valid_out_dim := Dim 7\<rparr>) None
        = (7, toy_agent\<lparr>valid_out_dim := Dim 7\<rparr>)
   \<and> criterion toy_env (snd (add_valid_output_dim toy_agent None))
        (DictOutput [(''All'', [[1, 2], [3, 4]])]) [0, 1] [] = Inr (LossTensor 0)"
proof -
  have h: "valid_out_dim toy_agent = ALL_OUT"
    "valid_out_dim (toy_agent\<lparr>valid_out_dim := Dim 7\<rparr>) = Dim 7"
    by (simp_all add: toy_agent_def)
  have c: "\<not> multihead toy_agent \<and> criterion_fn toy_agent = Some MSELoss
      \<and> map_of (items (DictOutput [(''All'', [[1, 2], [3, 4]])])) ''All'' = Some [[1, 2], [3, 4]]"
    by (simp add: toy_agent_def)
  note t = add_valid_output_dim_default [of toy_agent MSELoss
          "DictOutput [(''All'', [[1, 2], [3, 4]])]" "[[1, 2], [3, 4]]" toy_env "[0, 1]" "[]"]
  note u = add_valid_output_dim_default [of "toy_agent\<lparr>valid_out_dim := Dim 7\<rparr>" MSELoss
          "DictOutput [(''All'', [[1, 2], [3, 4]])]" "[[1, 2], [3, 4]]" toy_env "[0, 1]" "[]"]
  from t h have f1: "add_valid_output_dim toy_agent None
      = (0, toy_agent\<lparr>valid_out_dim := Dim 0\<rparr>)"
    by blast
  from t h c have f2: "criterion toy_env (snd (add_valid_output_dim toy_agent None))
        (DictOutput [(''All'', [[1, 2], [3, 4]])]) [0, 1] []
      = Inr (LossTensor (loss_of toy_env MSELoss (map (\<lambda>row. []) [[1, 2], [3, 4::real]]) [0, 1]))"
    by blast
  from u h have g1: "fst (add_valid_output_dim (toy_agent\<lparr>valid_out_dim := Dim 7\<rparr>) (Some 3))
      = 7 + 3"
    by blast
  from u have g2: "snd (add_valid_output_dim (toy_agent\<lparr>valid_out_dim := Dim 7\<rparr>) (Some 3))
      = toy_agent\<lparr>valid_out_dim := Dim 7\<rparr>
          \<lparr>valid_out_dim :=
              Dim (fst (add_valid_output_dim (toy_agent\<lparr>valid_out_dim := Dim 7\<rparr>) (Some 3)))\<rparr>"
    by blast
  from u have g3: "add_valid_output_dim (toy_agent\<lparr>valid_out_dim := Dim 7\<rparr>) None
      = add_valid_output_dim (toy_agent\<lparr>valid_out_dim := Dim 7\<rparr>) (Some 0)"
    by blast
  from u h have g4: "fst (add_valid_output_dim (toy_agent\<lparr>valid_out_dim := Dim 7\<rparr>) (Some 0))
      = 7 + 0"
    by blast
  from u have g5: "snd (add_valid_output_dim (toy_agent\<lparr>valid_out_dim := Dim 7\<rparr>) (Some 0))
      = toy_agent\<lparr>valid_out_dim := Dim 7\<rparr>
          \<lparr>valid_out_dim :=
              Dim (fst (add_valid_output_dim (toy_agent\<lparr>valid_out_dim := Dim 7\<rparr>) (Some 0)))\<rparr>"
    by blast
  have e1: "add_valid_output_dim (toy_agent\<lparr>valid_out_dim := Dim 7\<rparr>) (Some 3)
      = (10, toy_agent\<lparr>valid_out_dim := Dim 10\<rparr>)"
    using g1 g2 by (simp add: prod_eq_iff)
  have e2: "add_valid_output_dim (toy_agent\<lparr>valid_out_dim := Dim 7\<rparr>) None
      = (7, toy_agent\<lparr>valid_out_dim := Dim 7\<rparr>)"
    using g3 g4 g5 by (simp add: prod_eq_iff)
  have "loss_of toy_env MSELoss (map (\<lambda>row. []) [[1, 2], [3, 4::real]]) [0, 1] = 0"
    by (simp add: toy_env_def toy_loss_def)
  with f1 f2 e1 e2 show ?thesis by simp
qed

end
